theory Spec2Isabelle
  imports Main "HOL-Library.Sublist" "HOL-Library.Word"
begin

section \<open>Go strings and the library calls of options.go\<close>

text \<open>
  A Go string is a sequence of bytes, here a \<^typ>\<open>string\<close>. The package calls
  \<^verbatim>\<open>strings.ToLower\<close>, \<^verbatim>\<open>fmt.Errorf\<close> with the verb \<^verbatim>\<open>%q\<close> and
  \<^verbatim>\<open>json.Marshal\<close>. Each of them is written out below for the bytes it treats without
  the Unicode tables. What they do with the remaining strings depends on those tables
  (\<^verbatim>\<open>unicode.ToLower\<close>, \<^verbatim>\<open>unicode.IsPrint\<close>, UTF-8 validity), which are no part of
  the package: these paths are the three functions of a \<open>GoLib\<close>, and every theorem
  holds for any choice of them.
\<close>

record GoLib =
  MapToLower :: "string \<Rightarrow> string"
  QuoteUnicode :: "string \<Rightarrow> string"
  JSONEscape :: "string \<Rightarrow> string"

definition dq :: char where
  "dq = CHR 0x22"

definition bs :: char where
  "bs = CHR 0x5C"

definition isASCII :: "char \<Rightarrow> bool" where
  "isASCII c = ((of_char c :: nat) < 0x80)"

definition toLowerASCII :: "char \<Rightarrow> char" where
  "toLowerASCII c =
     (let n = (of_char c :: nat) in if 0x41 \<le> n \<and> n \<le> 0x5A then char_of (n + 0x20) else c)"

text \<open>
  \<^verbatim>\<open>strings.ToLower\<close> (and \<^verbatim>\<open>bytes.ToLower\<close>): a string of ASCII bytes only has
  \<^verbatim>\<open>'A'..'Z'\<close> moved to \<^verbatim>\<open>'a'..'z'\<close>; any other string goes through
  \<^verbatim>\<open>Map(unicode.ToLower, s)\<close>.
\<close>

definition ToLower :: "GoLib \<Rightarrow> string \<Rightarrow> string" where
  "ToLower U s = (if list_all isASCII s then map toLowerASCII s else MapToLower U s)"

definition lowerhex :: "nat \<Rightarrow> char" where
  "lowerhex n = ''0123456789abcdef'' ! (n mod 16)"

text \<open>
  \<^verbatim>\<open>strconv.appendEscapedRune\<close> for a rune below \<^verbatim>\<open>0x7F\<close>, with the double quote
  as the quote character: the quote and the backslash are backslashed, a printable rune
  is copied, the seven named control characters have their letter, any other control
  character is \<^verbatim>\<open>\x\<close> and two hexadecimal digits.
\<close>

definition appendEscapedRune :: "char \<Rightarrow> string" where
  "appendEscapedRune r =
     (let n = (of_char r :: nat) in
      if r = dq \<or> r = bs then [bs, r]
      else if 0x20 \<le> n \<and> n < 0x7F then [r]
      else if n = 0x07 then [bs, CHR ''a'']
      else if n = 0x08 then [bs, CHR ''b'']
      else if n = 0x0C then [bs, CHR ''f'']
      else if n = 0x0A then [bs, CHR ''n'']
      else if n = 0x0D then [bs, CHR ''r'']
      else if n = 0x09 then [bs, CHR ''t'']
      else if n = 0x0B then [bs, CHR ''v'']
      else [bs, CHR ''x'', lowerhex (n div 16), lowerhex n])"

text \<open>
  \<^verbatim>\<open>strconv.Quote\<close>, which is what \<^verbatim>\<open>%q\<close> prints for a string or a byte slice.
\<close>

definition Quote :: "GoLib \<Rightarrow> string \<Rightarrow> string" where
  "Quote U s =
     (if list_all (\<lambda>c. (of_char c :: nat) < 0x7F) s
      then [dq] @ concat (map appendEscapedRune s) @ [dq]
      else QuoteUnicode U s)"

text \<open>
  A string with a byte from \<^verbatim>\<open>0x7F\<close> on is left to the library. The bytes that
  \<^verbatim>\<open>Quote\<close> copies as they are: printable ASCII but for the quote and the backslash.
\<close>

definition plainByte :: "char \<Rightarrow> bool" where
  "plainByte c =
     (0x20 \<le> (of_char c :: nat) \<and> (of_char c :: nat) < 0x7F \<and> c \<noteq> dq \<and> c \<noteq> bs)"

text \<open>
  A Go \<^verbatim>\<open>error\<close> made by \<^verbatim>\<open>fmt.Errorf\<close> without \<^verbatim>\<open>%w\<close> is a message.
  \<open>Errorf_q m a\<close> is \<^verbatim>\<open>fmt.Errorf(m + "%q", a)\<close>.
\<close>

datatype error = errorString (Error: string)

definition Errorf_q :: "GoLib \<Rightarrow> string \<Rightarrow> string \<Rightarrow> error" where
  "Errorf_q U m a = errorString (m @ Quote U a)"

section \<open>The severity levels of zapcore\<close>

text \<open>
  Modelled from the spec: the levels and their names are those of the dependency
  \<^verbatim>\<open>go.uber.org/zap/zapcore\<close> (\<^verbatim>\<open>Level\<close> and \<^verbatim>\<open>Level.String\<close>), which is
  not among the sources of the package. The spec calls the names severity level tokens
  and lists debug, info, warn, error and panic among them.
\<close>

datatype zapLevel =
  DebugLevel | InfoLevel | WarnLevel | ErrorLevel | DPanicLevel | PanicLevel | FatalLevel

fun Level_String :: "zapLevel \<Rightarrow> string" where
  "Level_String DebugLevel = ''debug''"
| "Level_String InfoLevel = ''info''"
| "Level_String WarnLevel = ''warn''"
| "Level_String ErrorLevel = ''error''"
| "Level_String DPanicLevel = ''dpanic''"
| "Level_String PanicLevel = ''panic''"
| "Level_String FatalLevel = ''fatal''"

text \<open>The names of the seven levels, the severity tokens.\<close>

definition levelTokens :: "string list" where
  "levelTokens =
     map Level_String
       [DebugLevel, InfoLevel, WarnLevel, ErrorLevel, DPanicLevel, PanicLevel, FatalLevel]"

text \<open>
  Modelled from the spec: the parser \<^verbatim>\<open>zapcore.Level.UnmarshalText\<close> that
  \<^verbatim>\<open>Validate\<close> calls belongs to the dependency \<^verbatim>\<open>go.uber.org/zap/zapcore\<close> and is
  not among the sources of the package. The spec describes it as the recognition of a
  severity-level token without regard to letter case, failing with an error that
  describes the parse failure. The token table, the empty text standing for the info
  level, the lookup of the text as given and then of its lower-cased form, and the
  message are those of zapcore's \<^verbatim>\<open>level.go\<close>. \<open>unmarshalText\<close> returns the level it
  stores, or \<open>None\<close> where zapcore returns false and stores nothing.
\<close>

definition unmarshalText :: "string \<Rightarrow> zapLevel option" where
  "unmarshalText text =
     (if text = ''debug'' \<or> text = ''DEBUG'' then Some DebugLevel
      else if text = ''info'' \<or> text = ''INFO'' \<or> text = [] then Some InfoLevel
      else if text = ''warn'' \<or> text = ''WARN'' then Some WarnLevel
      else if text = ''error'' \<or> text = ''ERROR'' then Some ErrorLevel
      else if text = ''dpanic'' \<or> text = ''DPANIC'' then Some DPanicLevel
      else if text = ''panic'' \<or> text = ''PANIC'' then Some PanicLevel
      else if text = ''fatal'' \<or> text = ''FATAL'' then Some FatalLevel
      else None)"

text \<open>
  Modelled from the spec: \<^verbatim>\<open>UnmarshalText\<close> on a level variable holding \<open>l\<close>; the
  result is the variable afterwards and the error, \<open>None\<close> for \<^verbatim>\<open>nil\<close>.
\<close>

definition UnmarshalText :: "GoLib \<Rightarrow> zapLevel \<Rightarrow> string \<Rightarrow> zapLevel \<times> error option" where
  "UnmarshalText U l text =
     (case unmarshalText text of
        Some l' \<Rightarrow> (l', None)
      | None \<Rightarrow>
          (case unmarshalText (ToLower U text) of
             Some l' \<Rightarrow> (l', None)
           | None \<Rightarrow> (l, Some (Errorf_q U ''unrecognized level: '' text))))"

section \<open>Options\<close>

definition consoleFormat :: string where
  "consoleFormat = ''console''"

definition jsonFormat :: string where
  "jsonFormat = ''json''"

text \<open>
  The struct \<^verbatim>\<open>Options\<close>. A Go slice is \<^verbatim>\<open>nil\<close> (\<open>None\<close>) or a sequence; the two
  \<^verbatim>\<open>int\<close> fields are those of a 64-bit target.
\<close>

record Options =
  Level :: string
  Format :: string
  EnableColor :: bool
  EnableCaller :: bool
  OutputPaths :: "string list option"
  ErrorOutputPaths :: "string list option"
  DisableStacktrace :: bool
  Development :: bool
  Name :: string
  MaxSizeInMB :: "64 word"
  MaxAgeInDays :: "64 word"

text \<open>The zero value \<^verbatim>\<open>Options{}\<close>.\<close>

definition zeroOptions :: Options where
  "zeroOptions =
     \<lparr> Level = [], Format = [], EnableColor = False, EnableCaller = False,
       OutputPaths = None, ErrorOutputPaths = None, DisableStacktrace = False,
       Development = False, Name = [], MaxSizeInMB = 0, MaxAgeInDays = 0 \<rparr>"

text \<open>\<^verbatim>\<open>NewOptions\<close>: the composite literal sets six fields and leaves the others zero.\<close>

definition NewOptions :: Options where
  "NewOptions =
     zeroOptions
       \<lparr> Level := Level_String InfoLevel,
         Format := consoleFormat,
         EnableColor := False,
         EnableCaller := False,
         OutputPaths := Some [''stdout''],
         ErrorOutputPaths := Some [''stderr''] \<rparr>"

text \<open>
  \<^verbatim>\<open>Validate\<close> has a pointer receiver, so it could write to the record: the model
  returns the record as the call leaves it, beside the errors. The local
  \<^verbatim>\<open>zapLevel\<close> starts at the zero value of its type, the info level.
\<close>

definition Validate :: "GoLib \<Rightarrow> Options \<Rightarrow> error list \<times> Options" where
  "Validate U opts =
     (let errs = [];
          (zapLevel, err) = UnmarshalText U InfoLevel (Level opts);
          errs = (case err of Some e \<Rightarrow> errs @ [e] | None \<Rightarrow> errs);
          format = ToLower U (Format opts);
          errs = (if format \<noteq> consoleFormat \<and> format \<noteq> jsonFormat
                  then errs @ [Errorf_q U ''not a valid log format: '' (Format opts)]
                  else errs)
      in (errs, opts))"

section \<open>Binding to a flag set\<close>

definition flagLevel :: string where
  "flagLevel = ''log.level''"

definition flagFormat :: string where
  "flagFormat = ''log.format''"

definition flagEnableColor :: string where
  "flagEnableColor = ''log.enable-color''"

definition flagEnableCaller :: string where
  "flagEnableCaller = ''log.enable-caller''"

definition flagOutputPaths :: string where
  "flagOutputPaths = ''log.output-paths''"

definition flagErrorOutputPaths :: string where
  "flagErrorOutputPaths = ''log.error-output-paths''"

definition flagDevelopment :: string where
  "flagDevelopment = ''log.development''"

definition flagName :: string where
  "flagName = ''log.name''"

definition flagDisableStacktrace :: string where
  "flagDisableStacktrace = ''log.disable-stacktrace''"

definition flagMaxSizeInMB :: string where
  "flagMaxSizeInMB = ''log.max-size-mb''"

definition flagMaxAgeInDays :: string where
  "flagMaxAgeInDays = ''log.max-age-days''"

definition flagNames :: "string list" where
  "flagNames =
     [flagLevel, flagFormat, flagEnableColor, flagEnableCaller, flagOutputPaths,
      flagErrorOutputPaths, flagDevelopment, flagName, flagDisableStacktrace,
      flagMaxSizeInMB, flagMaxAgeInDays]"

text \<open>
  The pointers \<^verbatim>\<open>&o.Level\<close>, ... that \<^verbatim>\<open>AddFlags\<close> hands to the flag set, by
  the type they point to, and the assignment through each.
\<close>

datatype stringPtr = ptr_Level | ptr_Format | ptr_Name

datatype boolPtr = ptr_EnableColor | ptr_EnableCaller | ptr_Development | ptr_DisableStacktrace

datatype slicePtr = ptr_OutputPaths | ptr_ErrorOutputPaths

datatype intPtr = ptr_MaxSizeInMB | ptr_MaxAgeInDays

fun storeString :: "stringPtr \<Rightarrow> string \<Rightarrow> Options \<Rightarrow> Options" where
  "storeString ptr_Level v opts = opts\<lparr>Level := v\<rparr>"
| "storeString ptr_Format v opts = opts\<lparr>Format := v\<rparr>"
| "storeString ptr_Name v opts = opts\<lparr>Name := v\<rparr>"

fun storeBool :: "boolPtr \<Rightarrow> bool \<Rightarrow> Options \<Rightarrow> Options" where
  "storeBool ptr_EnableColor v opts = opts\<lparr>EnableColor := v\<rparr>"
| "storeBool ptr_EnableCaller v opts = opts\<lparr>EnableCaller := v\<rparr>"
| "storeBool ptr_Development v opts = opts\<lparr>Development := v\<rparr>"
| "storeBool ptr_DisableStacktrace v opts = opts\<lparr>DisableStacktrace := v\<rparr>"

fun storeSlice :: "slicePtr \<Rightarrow> string list option \<Rightarrow> Options \<Rightarrow> Options" where
  "storeSlice ptr_OutputPaths v opts = opts\<lparr>OutputPaths := v\<rparr>"
| "storeSlice ptr_ErrorOutputPaths v opts = opts\<lparr>ErrorOutputPaths := v\<rparr>"

fun storeInt :: "intPtr \<Rightarrow> 64 word \<Rightarrow> Options \<Rightarrow> Options" where
  "storeInt ptr_MaxSizeInMB v opts = opts\<lparr>MaxSizeInMB := v\<rparr>"
| "storeInt ptr_MaxAgeInDays v opts = opts\<lparr>MaxAgeInDays := v\<rparr>"

text \<open>
  Modelled from the spec: the flag-registration target is the \<^verbatim>\<open>FlagSet\<close> of the
  dependency \<^verbatim>\<open>github.com/spf13/pflag\<close>, which is not among the sources of the
  package. The spec describes it as a mutable target that accepts tuples of name,
  pointer, default and description for strings, bools, integers and ordered string
  sequences, and that fails fatally when it is unusable. A flag keeps the four parts of
  its tuple (pflag keeps the default as the text of the value; here it is the value). As
  in pflag, a flag set has a name and a function normalising flag names, a flag is stored
  under its normalised name, registering a name that is already there panics, and each
  \<^verbatim>\<open>XxxVar(p, name, value, usage)\<close> first assigns \<^verbatim>\<open>*p = value\<close>. The
  normalising function is applied to the name alone; a flag set made by
  \<^verbatim>\<open>pflag.NewFlagSet\<close> returns every name as it is.
\<close>

datatype flagPtr =
  stringValue stringPtr | boolValue boolPtr | stringSliceValue slicePtr | intValue intPtr

datatype flagDefault =
  stringDef string | boolDef bool | stringSliceDef "string list option" | intDef "64 word"

record Flag =
  FlagName :: string
  Usage :: string
  FlagValue :: flagPtr
  DefValue :: flagDefault

record FlagSet =
  fsName :: string
  normalizeNameFunc :: "string \<Rightarrow> string"
  orderedFormal :: "Flag list"

datatype panic = Panic string

definition AddFlag :: "FlagSet \<Rightarrow> Flag \<Rightarrow> panic + FlagSet" where
  "AddFlag f flag =
     (let normalizedFlagName = normalizeNameFunc f (FlagName flag) in
      if normalizedFlagName \<in> set (map FlagName (orderedFormal f))
      then Inl (Panic (fsName f @ '' flag redefined: '' @ FlagName flag))
      else Inr (f\<lparr>orderedFormal :=
                   orderedFormal f @ [flag\<lparr>FlagName := normalizedFlagName\<rparr>]\<rparr>))"

definition VarP :: "flagPtr \<Rightarrow> flagDefault \<Rightarrow> string \<Rightarrow> string \<Rightarrow> FlagSet \<times> Options \<Rightarrow>
    panic + FlagSet \<times> Options" where
  "VarP p d nm usage st =
     (case AddFlag (fst st) \<lparr>FlagName = nm, Usage = usage, FlagValue = p, DefValue = d\<rparr> of
        Inl e \<Rightarrow> Inl e
      | Inr f \<Rightarrow> Inr (f, snd st))"

definition StringVar :: "stringPtr \<Rightarrow> string \<Rightarrow> string \<Rightarrow> string \<Rightarrow> FlagSet \<times> Options \<Rightarrow>
    panic + FlagSet \<times> Options" where
  "StringVar p nm v usage st =
     VarP (stringValue p) (stringDef v) nm usage (fst st, storeString p v (snd st))"

definition BoolVar :: "boolPtr \<Rightarrow> string \<Rightarrow> bool \<Rightarrow> string \<Rightarrow> FlagSet \<times> Options \<Rightarrow>
    panic + FlagSet \<times> Options" where
  "BoolVar p nm v usage st =
     VarP (boolValue p) (boolDef v) nm usage (fst st, storeBool p v (snd st))"

definition StringSliceVar :: "slicePtr \<Rightarrow> string \<Rightarrow> string list option \<Rightarrow> string \<Rightarrow>
    FlagSet \<times> Options \<Rightarrow> panic + FlagSet \<times> Options" where
  "StringSliceVar p nm v usage st =
     VarP (stringSliceValue p) (stringSliceDef v) nm usage (fst st, storeSlice p v (snd st))"

definition IntVar :: "intPtr \<Rightarrow> string \<Rightarrow> 64 word \<Rightarrow> string \<Rightarrow> FlagSet \<times> Options \<Rightarrow>
    panic + FlagSet \<times> Options" where
  "IntVar p nm v usage st =
     VarP (intValue p) (intDef v) nm usage (fst st, storeInt p v (snd st))"

text \<open>A panic ends the sequence of calls; otherwise the next call sees the new state.\<close>

definition andThen :: "panic + 'a \<Rightarrow> ('a \<Rightarrow> panic + 'b) \<Rightarrow> panic + 'b" where
  "andThen r k = (case r of Inl e \<Rightarrow> Inl e | Inr x \<Rightarrow> k x)"

text \<open>
  \<^verbatim>\<open>AddFlags\<close>: the state is the flag set and the record behind the receiver; every
  call reads its default from the record as it is at that call.
\<close>

definition AddFlags :: "Options \<Rightarrow> FlagSet \<Rightarrow> panic + FlagSet \<times> Options" where
  \<open>AddFlags opts fs =
     andThen (StringVar ptr_Level flagLevel (Level opts)
        ''Minimum log output `LEVEL`.'' (fs, opts)) (\<lambda>st.
     andThen (StringVar ptr_Format flagFormat (Format (snd st))
        ''Log output `FORMAT`, support plain or json format.'' st) (\<lambda>st.
     andThen (BoolVar ptr_EnableColor flagEnableColor (EnableColor (snd st))
        ''Enable output ansi colors in plain format logs.'' st) (\<lambda>st.
     andThen (BoolVar ptr_EnableCaller flagEnableCaller (EnableCaller (snd st))
        ''Enable output of caller information in the log.'' st) (\<lambda>st.
     andThen (StringSliceVar ptr_OutputPaths flagOutputPaths (OutputPaths (snd st))
        ''Output paths of log.'' st) (\<lambda>st.
     andThen (StringSliceVar ptr_ErrorOutputPaths flagErrorOutputPaths
        (ErrorOutputPaths (snd st)) ''Error output paths of log.'' st) (\<lambda>st.
     andThen (BoolVar ptr_Development flagDevelopment (Development (snd st))
        (''Development puts the logger in development mode, which changes '' @
         ''the behavior of DPanicLevel and takes stacktraces more liberally.'') st) (\<lambda>st.
     andThen (StringVar ptr_Name flagName (Name (snd st))
        ''The name of the logger.'' st) (\<lambda>st.
     andThen (BoolVar ptr_DisableStacktrace flagDisableStacktrace
        (DisableStacktrace (snd st))
        ''Disable the log to record a stack trace for all messages at or above panic level.''
        st) (\<lambda>st.
     andThen (IntVar ptr_MaxSizeInMB flagMaxSizeInMB (MaxSizeInMB (snd st))
        ''The max size in MB.'' st) (\<lambda>st.
     IntVar ptr_MaxAgeInDays flagMaxAgeInDays (MaxAgeInDays (snd st))
        ''The max age in Days.'' st))))))))))\<close>

section \<open>Serialisation\<close>














section \<open>Inputs for evaluation\<close>

text \<open>
  Evaluating the model at a concrete input needs a concrete \<open>GoLib\<close>. At the inputs
  used below, which are ASCII, none of its three functions is applied.
\<close>

definition asciiLib :: GoLib where
  "asciiLib = \<lparr> MapToLower = (\<lambda>s. s), QuoteUnicode = (\<lambda>s. s), JSONEscape = (\<lambda>s. s) \<rparr>"

text \<open>A flag set as \<^verbatim>\<open>pflag.NewFlagSet("log", ...)\<close> makes it.\<close>

definition emptyFlagSet :: FlagSet where
  "emptyFlagSet = \<lparr> fsName = ''log'', normalizeNameFunc = (\<lambda>n. n), orderedFormal = [] \<rparr>"

text \<open>The defaults with both validated fields replaced by unknown words.\<close>

definition loudXML :: Options where
  "loudXML = NewOptions\<lparr>Level := ''loud'', Format := ''XML''\<rparr>"

section \<open>Evaluation of the library calls\<close>


lemmas flag_names =
  flagLevel_def flagFormat_def flagEnableColor_def flagEnableCaller_def flagOutputPaths_def
  flagErrorOutputPaths_def flagDevelopment_def flagName_def flagDisableStacktrace_def
  flagMaxSizeInMB_def flagMaxAgeInDays_def

lemma of_char_toLowerASCII:
  "(of_char (toLowerASCII c) :: nat) =
     (if 0x41 \<le> (of_char c :: nat) \<and> (of_char c :: nat) \<le> 0x5A then of_char c + 0x20 else of_char c)"
  by (simp add: toLowerASCII_def Let_def)

lemma isASCII_toLowerASCII: "isASCII (toLowerASCII c) = isASCII c"
  by (auto simp add: isASCII_def of_char_toLowerASCII)

lemma ToLower_ascii: "list_all isASCII s \<Longrightarrow> ToLower U s = map toLowerASCII s"
  by (simp add: ToLower_def)

lemma ToLower_console: "ToLower U ''console'' = ''console''"
  by (simp add: ToLower_def isASCII_def toLowerASCII_def)

lemma ToLower_XML: "ToLower U ''XML'' = ''xml''"
  by (simp add: ToLower_def isASCII_def toLowerASCII_def) code_simp

lemma XML_lower:
  "ToLower U ''XML'' \<noteq> consoleFormat \<and> ToLower U ''XML'' \<noteq> jsonFormat"
  by (simp add: ToLower_XML consoleFormat_def jsonFormat_def)

text \<open>A lower-cased text that is a token was ASCII, so the library lower-cases it bytewise.\<close>

lemma ToLower_token:
  assumes "map toLowerASCII l \<in> set levelTokens"
  shows "ToLower U l = map toLowerASCII l"
proof -
  have "list_all isASCII (map toLowerASCII l)"
    using assms by (auto simp add: levelTokens_def isASCII_def)
  then have "list_all isASCII l"
    by (simp add: list_all_iff isASCII_toLowerASCII)
  then show ?thesis by (rule ToLower_ascii)
qed

lemma unmarshalText_token: "t \<in> set levelTokens \<Longrightarrow> unmarshalText t \<noteq> None"
  by (auto simp add: levelTokens_def unmarshalText_def)

lemma Quote_plain: "list_all plainByte s \<Longrightarrow> Quote U s = [dq] @ s @ [dq]"
proof -
  assume p: "list_all plainByte s"
  have a: "list_all (\<lambda>c. (of_char c :: nat) < 0x7F) s"
    using p by (induction s) (simp_all add: plainByte_def)
  have b: "concat (map appendEscapedRune s) = s"
    using p by (induction s) (simp_all add: plainByte_def appendEscapedRune_def Let_def)
  show ?thesis by (simp add: Quote_def a b)
qed

lemma Quote_loudXML:
  "Quote U (Level loudXML) = [dq] @ ''loud'' @ [dq]"
  "Quote U (Format loudXML) = [dq] @ ''XML'' @ [dq]"
  by (simp_all add: loudXML_def Quote_plain plainByte_def dq_def bs_def)

section \<open>The two checks of Validate\<close>

text \<open>The error of the parser: raised when neither lookup finds the text.\<close>

lemma UnmarshalText_err:
  "snd (UnmarshalText U l text) =
     (if unmarshalText text = None \<and> unmarshalText (ToLower U text) = None
      then Some (errorString (''unrecognized level: '' @ Quote U text)) else None)"
  by (simp add: UnmarshalText_def Errorf_q_def split: option.splits)

text \<open>The errors of \<^verbatim>\<open>Validate\<close>: what the level check appends, then the format check.\<close>

lemma Validate_errs:
  "fst (Validate U opts) =
     (case snd (UnmarshalText U InfoLevel (Level opts)) of Some e \<Rightarrow> [e] | None \<Rightarrow> []) @
     (if ToLower U (Format opts) \<noteq> consoleFormat \<and> ToLower U (Format opts) \<noteq> jsonFormat
      then [Errorf_q U ''not a valid log format: '' (Format opts)] else [])"
  by (simp add: Validate_def Let_def split: prod.splits option.splits)

lemma loud_fails: "snd (UnmarshalText U InfoLevel ''loud'') \<noteq> None"
  by (simp add: UnmarshalText_err unmarshalText_def ToLower_def isASCII_def toLowerASCII_def)

lemma info_parses: "snd (UnmarshalText U InfoLevel (Level NewOptions)) = None"
  by (simp add: UnmarshalText_err NewOptions_def unmarshalText_def)

lemma XML_scenario:
  \<open>fst (Validate U (NewOptions\<lparr>Format := ''XML''\<rparr>)) =
     [errorString ''not a valid log format: "XML"'']\<close>
  by (simp add: Validate_errs UnmarshalText_err NewOptions_def zeroOptions_def
      unmarshalText_def ToLower_XML consoleFormat_def jsonFormat_def Errorf_q_def
      Quote_plain plainByte_def dq_def bs_def)

section \<open>The defaults\<close>

text \<open>
  C5. \<^verbatim>\<open>NewOptions\<close> returns the record with Level "info", Format "console",
  OutputPaths ["stdout"], ErrorOutputPaths ["stderr"], the four booleans false, the
  empty Name and both integers zero.
\<close>

theorem NewOptions_defaults:
  "NewOptions =
     \<lparr> Level = ''info'', Format = ''console'', EnableColor = False, EnableCaller = False,
       OutputPaths = Some [''stdout''], ErrorOutputPaths = Some [''stderr''],
       DisableStacktrace = False, Development = False, Name = [],
       MaxSizeInMB = 0, MaxAgeInDays = 0 \<rparr>"
  by (simp add: NewOptions_def zeroOptions_def consoleFormat_def)

text \<open>
  C1. Validating the record that \<^verbatim>\<open>NewOptions\<close> returns, unchanged, gives the
  empty error sequence.
\<close>

theorem Validate_NewOptions: "fst (Validate U NewOptions) = []"
  by (simp add: Validate_def NewOptions_def zeroOptions_def UnmarshalText_def
      unmarshalText_def consoleFormat_def jsonFormat_def ToLower_console)

section \<open>The format check\<close>

text \<open>
  C2, as the code has it. Let \<open>s\<close> be a string whose lower-cased form is neither
  "console" nor "json", in a record whose Level parses. \<^verbatim>\<open>Validate\<close> returns exactly
  one error, the format error, and its message is the fixed prefix followed by \<open>s\<close> as
  \<^verbatim>\<open>%q\<close> quotes it. When \<open>s\<close> is made of printable ASCII characters other than the
  double quote and the backslash, the quoted form is \<open>s\<close> between double quotes, so the
  message contains \<open>s\<close> itself, letter case kept. For the Format "XML" on the defaults
  the one message is: not a valid log format: "XML".
\<close>

theorem Validate_bad_format:
  assumes "ToLower U s \<noteq> consoleFormat" and "ToLower U s \<noteq> jsonFormat"
    and "snd (UnmarshalText U InfoLevel (Level opts)) = None"
  shows \<open>fst (Validate U (opts\<lparr>Format := s\<rparr>)) =
           [errorString (''not a valid log format: '' @ Quote U s)] \<and>
         (list_all plainByte s \<longrightarrow>
            Quote U s = [dq] @ s @ [dq] \<and>
            sublist s (''not a valid log format: '' @ Quote U s)) \<and>
         fst (Validate U (NewOptions\<lparr>Format := ''XML''\<rparr>)) =
           [errorString ''not a valid log format: "XML"'']\<close>
proof -
  have one: "fst (Validate U (opts\<lparr>Format := s\<rparr>)) =
      [errorString (''not a valid log format: '' @ Quote U s)]"
    using assms by (simp add: Validate_errs Errorf_q_def)
  have lit: "sublist s (''not a valid log format: '' @ Quote U s)" if "list_all plainByte s"
  proof -
    have "''not a valid log format: '' @ Quote U s =
        (''not a valid log format: '' @ [dq]) @ s @ [dq]"
      using that by (simp add: Quote_plain)
    then show ?thesis unfolding sublist_def by blast
  qed
  show ?thesis using one lit XML_scenario by (simp add: Quote_plain)
qed

text \<open>The theorem at the Format "Yaml" on the defaults.\<close>

theorem Validate_bad_format_witness:
  \<open>ToLower asciiLib ''Yaml'' \<noteq> consoleFormat \<and> ToLower asciiLib ''Yaml'' \<noteq> jsonFormat \<and>
   snd (UnmarshalText asciiLib InfoLevel (Level NewOptions)) = None \<and>
   list_all plainByte ''Yaml'' \<and>
   fst (Validate asciiLib (NewOptions\<lparr>Format := ''Yaml''\<rparr>)) =
     [errorString ''not a valid log format: "Yaml"''] \<and>
   sublist ''Yaml'' (''not a valid log format: '' @ Quote asciiLib ''Yaml'')\<close>
proof -
  have low: "ToLower asciiLib ''Yaml'' = ''yaml''"
    by (simp add: ToLower_def isASCII_def toLowerASCII_def) code_simp
  have a: "ToLower asciiLib ''Yaml'' \<noteq> consoleFormat"
    and b: "ToLower asciiLib ''Yaml'' \<noteq> jsonFormat"
    by (simp_all add: low consoleFormat_def jsonFormat_def)
  have c: "snd (UnmarshalText asciiLib InfoLevel (Level NewOptions)) = None"
    by (rule info_parses)
  have d: "list_all plainByte ''Yaml''"
    by (simp add: plainByte_def dq_def bs_def)
  show ?thesis
    using Validate_bad_format [OF a b c] a b c d by (simp add: dq_def sublist_code)
qed

text \<open>
  The claim as the spec words it, that the message contains the original value of \<open>s\<close>,
  fails where \<^verbatim>\<open>%q\<close> escapes. For the three characters a, double quote, b the
  quoted form has a backslash between the a and the double quote.
\<close>

theorem Validate_format_message_counterexample:
  \<open>ToLower asciiLib ''a"b'' \<noteq> consoleFormat \<and> ToLower asciiLib ''a"b'' \<noteq> jsonFormat \<and>
   snd (UnmarshalText asciiLib InfoLevel (Level NewOptions)) = None \<and>
   fst (Validate asciiLib (NewOptions\<lparr>Format := ''a"b''\<rparr>)) =
     [errorString (''not a valid log format: "a'' @ [bs] @ ''"b"'')] \<and>
   \<not> sublist ''a"b'' (''not a valid log format: "a'' @ [bs] @ ''"b"'')\<close>
proof -
  have low: \<open>ToLower asciiLib ''a"b'' = ''a"b''\<close>
    by (simp add: ToLower_def isASCII_def toLowerASCII_def)
  have q: \<open>Quote asciiLib ''a"b'' = ''"a'' @ [bs] @ ''"b"''\<close>
    by (simp add: Quote_def appendEscapedRune_def dq_def bs_def)
  have c: "snd (UnmarshalText asciiLib InfoLevel (Level NewOptions)) = None"
    by (rule info_parses)
  have v: \<open>fst (Validate asciiLib (NewOptions\<lparr>Format := ''a"b''\<rparr>)) =
     [errorString (''not a valid log format: "a'' @ [bs] @ ''"b"'')]\<close>
    using c by (simp add: Validate_errs low q Errorf_q_def consoleFormat_def jsonFormat_def)
  have n: \<open>\<not> sublist ''a"b'' (''not a valid log format: "a'' @ [bs] @ ''"b"'')\<close>
    by (simp add: sublist_code bs_def)
  show ?thesis using low c v n by (simp add: consoleFormat_def jsonFormat_def)
qed

section \<open>The level check\<close>

text \<open>
  C3. A Level on which the parser fails, with a Format that is "console" or "json" once
  lower-cased, makes \<^verbatim>\<open>Validate\<close> return exactly one error, the parser's. A Level
  that parses adds no error: the result is what the format check alone gives. Every
  spelling of a severity token in upper and lower case letters parses.
\<close>

theorem Validate_level:
  "(snd (UnmarshalText U InfoLevel l) \<noteq> None \<and>
      (ToLower U (Format opts) = consoleFormat \<or> ToLower U (Format opts) = jsonFormat) \<longrightarrow>
      fst (Validate U (opts\<lparr>Level := l\<rparr>)) =
        [errorString (''unrecognized level: '' @ Quote U l)]) \<and>
   (snd (UnmarshalText U InfoLevel l) = None \<longrightarrow>
      fst (Validate U (opts\<lparr>Level := l\<rparr>)) =
        (if ToLower U (Format opts) \<noteq> consoleFormat \<and> ToLower U (Format opts) \<noteq> jsonFormat
         then [errorString (''not a valid log format: '' @ Quote U (Format opts))] else [])) \<and>
   (map toLowerASCII l \<in> set levelTokens \<longrightarrow> snd (UnmarshalText U InfoLevel l) = None)"
proof -
  have c: "snd (UnmarshalText U InfoLevel l) = None" if "map toLowerASCII l \<in> set levelTokens"
    using that unmarshalText_token [OF that] by (simp add: UnmarshalText_err ToLower_token)
  show ?thesis
    using c by (auto simp add: Validate_errs UnmarshalText_err Errorf_q_def)
qed

text \<open>The theorem at the Levels "not-a-level" and "WaRn" on the defaults.\<close>

theorem Validate_level_witness:
  \<open>snd (UnmarshalText asciiLib InfoLevel ''not-a-level'') \<noteq> None \<and>
   ToLower asciiLib (Format NewOptions) = consoleFormat \<and>
   fst (Validate asciiLib (NewOptions\<lparr>Level := ''not-a-level''\<rparr>)) =
     [errorString ''unrecognized level: "not-a-level"''] \<and>
   map toLowerASCII ''WaRn'' \<in> set levelTokens \<and>
   snd (UnmarshalText asciiLib InfoLevel ''WaRn'') = None \<and>
   fst (Validate asciiLib (NewOptions\<lparr>Level := ''WaRn''\<rparr>)) = []\<close>
proof -
  have a: "snd (UnmarshalText asciiLib InfoLevel ''not-a-level'') \<noteq> None"
    by (simp add: UnmarshalText_err unmarshalText_def ToLower_def isASCII_def toLowerASCII_def)
  have b: "ToLower asciiLib (Format NewOptions) = consoleFormat"
    by (simp add: NewOptions_def consoleFormat_def ToLower_console)
  have c: "map toLowerASCII ''WaRn'' \<in> set levelTokens"
    by (simp add: levelTokens_def toLowerASCII_def) code_simp
  have q: "Quote asciiLib ''not-a-level'' = [dq] @ ''not-a-level'' @ [dq]"
    by (simp add: Quote_plain plainByte_def dq_def bs_def)
  show ?thesis
    using Validate_level [of asciiLib "''not-a-level''" NewOptions]
      Validate_level [of asciiLib "''WaRn''" NewOptions] a b c
    by (simp add: q dq_def jsonFormat_def consoleFormat_def)
qed

text \<open>
  C10. The parser accepts the empty text, as the info level, though the empty text is
  none of the severity tokens: a record with the empty Level gets no level error, only
  what the format check gives. The zero record, with both fields empty, gets exactly the
  format error.
\<close>

theorem Validate_empty_Level:
  "UnmarshalText U l [] = (InfoLevel, None) \<and>
   [] \<notin> set levelTokens \<and>
   fst (Validate U (opts\<lparr>Level := []\<rparr>)) =
     (if ToLower U (Format opts) \<noteq> consoleFormat \<and> ToLower U (Format opts) \<noteq> jsonFormat
      then [errorString (''not a valid log format: '' @ Quote U (Format opts))] else []) \<and>
   fst (Validate U zeroOptions) = [errorString (''not a valid log format: '' @ [dq, dq])]"
proof -
  have u: "UnmarshalText U l' [] = (InfoLevel, None)" for l'
    by (simp add: UnmarshalText_def unmarshalText_def)
  have t: "[] \<notin> set levelTokens"
    by (simp add: levelTokens_def)
  have z: "fst (Validate U zeroOptions) = [errorString (''not a valid log format: '' @ [dq, dq])]"
    by (simp add: Validate_errs u zeroOptions_def ToLower_def consoleFormat_def jsonFormat_def
        Errorf_q_def Quote_def)
  show ?thesis using u t z by (simp add: Validate_errs Errorf_q_def)
qed

section \<open>Both checks together\<close>

text \<open>
  C4. When the parser fails on the Level and the lower-cased Format is neither "console"
  nor "json", \<^verbatim>\<open>Validate\<close> returns exactly two errors: the parser's first, then the
  format error. The second check runs whatever the first one found.
\<close>

theorem Validate_both_invalid:
  assumes "snd (UnmarshalText U InfoLevel (Level opts)) \<noteq> None"
    and "ToLower U (Format opts) \<noteq> consoleFormat" and "ToLower U (Format opts) \<noteq> jsonFormat"
  shows "fst (Validate U opts) =
           [errorString (''unrecognized level: '' @ Quote U (Level opts)),
            errorString (''not a valid log format: '' @ Quote U (Format opts))]"
  using assms by (simp add: Validate_errs UnmarshalText_err Errorf_q_def split: if_splits)

text \<open>The theorem at the Level "loud" with the Format "XML".\<close>

theorem Validate_both_invalid_witness:
  \<open>snd (UnmarshalText asciiLib InfoLevel (Level loudXML)) \<noteq> None \<and>
   ToLower asciiLib (Format loudXML) \<noteq> consoleFormat \<and>
   ToLower asciiLib (Format loudXML) \<noteq> jsonFormat \<and>
   fst (Validate asciiLib loudXML) =
     [errorString ''unrecognized level: "loud"'', errorString ''not a valid log format: "XML"'']\<close>
proof -
  have a: "snd (UnmarshalText asciiLib InfoLevel (Level loudXML)) \<noteq> None"
    using loud_fails by (simp add: loudXML_def)
  have b: "ToLower asciiLib (Format loudXML) \<noteq> consoleFormat"
    and c: "ToLower asciiLib (Format loudXML) \<noteq> jsonFormat"
    using XML_lower by (simp_all add: loudXML_def)
  show ?thesis
    using Validate_both_invalid [OF a b c] a b c by (simp add: Quote_loudXML dq_def)
qed

text \<open>
  C6. \<^verbatim>\<open>Validate\<close> leaves every field of the record as it was, and a second call on
  the record the first call left returns the same errors.
\<close>

theorem Validate_pure:
  "snd (Validate U opts) = opts \<and>
   fst (Validate U (snd (Validate U opts))) = fst (Validate U opts)"
proof -
  have "snd (Validate U opts) = opts"
    by (simp add: Validate_def Let_def split: prod.splits)
  then show ?thesis by simp
qed

text \<open>
  C7. \<^verbatim>\<open>Validate\<close> returns at most two errors. Each is the level-parse error, and
  then neither lookup of the parser found the Level, or the format error, and then the
  lower-cased Format is neither "console" nor "json". \<^verbatim>\<open>Validate\<close> has no path
  that panics: it returns a list for every record.
\<close>

theorem Validate_error_kinds:
  "length (fst (Validate U opts)) \<le> 2 \<and>
   (\<forall>e \<in> set (fst (Validate U opts)).
      (e = errorString (''unrecognized level: '' @ Quote U (Level opts)) \<and>
       unmarshalText (Level opts) = None \<and> unmarshalText (ToLower U (Level opts)) = None) \<or>
      (e = errorString (''not a valid log format: '' @ Quote U (Format opts)) \<and>
       ToLower U (Format opts) \<noteq> consoleFormat \<and> ToLower U (Format opts) \<noteq> jsonFormat))"
  by (auto simp add: Validate_errs UnmarshalText_err Errorf_q_def split: if_splits)

text \<open>The theorem at the Level "loud" with the Format "XML", where both kinds occur.\<close>

theorem Validate_error_kinds_witness:
  \<open>length (fst (Validate asciiLib loudXML)) = 2 \<and>
   errorString ''unrecognized level: "loud"'' \<in> set (fst (Validate asciiLib loudXML)) \<and>
   errorString ''not a valid log format: "XML"'' \<in> set (fst (Validate asciiLib loudXML)) \<and>
   unmarshalText (Level loudXML) = None \<and>
   ToLower asciiLib (Format loudXML) \<noteq> consoleFormat\<close>
proof -
  have v: "fst (Validate asciiLib loudXML) =
      [errorString (''unrecognized level: '' @ Quote asciiLib (Level loudXML)),
       errorString (''not a valid log format: '' @ Quote asciiLib (Format loudXML))]"
    using loud_fails [of asciiLib] XML_lower [of asciiLib]
    by (simp add: Validate_errs UnmarshalText_err Errorf_q_def loudXML_def split: if_splits)
  show ?thesis
    using Validate_error_kinds [of asciiLib loudXML] XML_lower [of asciiLib]
    by (simp add: v Quote_loudXML dq_def)
qed

section \<open>Flags bound to the record\<close>

lemma VarP_ok:
  assumes "normalizeNameFunc (fst st) n = n"
    and "n \<notin> set (map FlagName (orderedFormal (fst st)))"
  shows "VarP p d n u st =
     Inr ((fst st)\<lparr>orderedFormal := orderedFormal (fst st) @
            [\<lparr>FlagName = n, Usage = u, FlagValue = p, DefValue = d\<rparr>]\<rparr>, snd st)"
  using assms by (simp add: VarP_def AddFlag_def Let_def)

text \<open>On a flag set that has the first name already, the first registration panics.\<close>

lemma AddFlags_redefined:
  assumes "normalizeNameFunc fs flagLevel = flagLevel"
    and "flagLevel \<in> set (map FlagName (orderedFormal fs))"
  shows "AddFlags opts fs = Inl (Panic (fsName fs @ '' flag redefined: log.level''))"
  using assms
  by (simp add: AddFlags_def andThen_def StringVar_def VarP_def AddFlag_def flagLevel_def)

text \<open>
  C9. On a flag set that leaves the eleven names as they are and has none of them yet,
  \<^verbatim>\<open>AddFlags\<close> returns without a panic, having appended eleven flags: one for each
  field, under the names log.level, log.format, log.enable-color, log.enable-caller,
  log.output-paths, log.error-output-paths, log.development, log.name,
  log.disable-stacktrace, log.max-size-mb and log.max-age-days, each pointing to its field
  and with the value of that field at the call as its default. The record is the same
  after the call.
\<close>

theorem AddFlags_binds:
  assumes norm: "\<forall>n \<in> set flagNames. normalizeNameFunc fs n = n"
    and fresh: "\<forall>n \<in> set flagNames. n \<notin> set (map FlagName (orderedFormal fs))"
  shows "\<exists>new. AddFlags opts fs = Inr (fs\<lparr>orderedFormal := orderedFormal fs @ new\<rparr>, opts) \<and>
     map (\<lambda>f. (FlagName f, FlagValue f, DefValue f)) new =
       [(''log.level'', stringValue ptr_Level, stringDef (Level opts)),
        (''log.format'', stringValue ptr_Format, stringDef (Format opts)),
        (''log.enable-color'', boolValue ptr_EnableColor, boolDef (EnableColor opts)),
        (''log.enable-caller'', boolValue ptr_EnableCaller, boolDef (EnableCaller opts)),
        (''log.output-paths'', stringSliceValue ptr_OutputPaths,
           stringSliceDef (OutputPaths opts)),
        (''log.error-output-paths'', stringSliceValue ptr_ErrorOutputPaths,
           stringSliceDef (ErrorOutputPaths opts)),
        (''log.development'', boolValue ptr_Development, boolDef (Development opts)),
        (''log.name'', stringValue ptr_Name, stringDef (Name opts)),
        (''log.disable-stacktrace'', boolValue ptr_DisableStacktrace,
           boolDef (DisableStacktrace opts)),
        (''log.max-size-mb'', intValue ptr_MaxSizeInMB, intDef (MaxSizeInMB opts)),
        (''log.max-age-days'', intValue ptr_MaxAgeInDays, intDef (MaxAgeInDays opts))]"
proof -
  have n: "normalizeNameFunc fs ''log.level'' = ''log.level''"
    "normalizeNameFunc fs ''log.format'' = ''log.format''"
    "normalizeNameFunc fs ''log.enable-color'' = ''log.enable-color''"
    "normalizeNameFunc fs ''log.enable-caller'' = ''log.enable-caller''"
    "normalizeNameFunc fs ''log.output-paths'' = ''log.output-paths''"
    "normalizeNameFunc fs ''log.error-output-paths'' = ''log.error-output-paths''"
    "normalizeNameFunc fs ''log.development'' = ''log.development''"
    "normalizeNameFunc fs ''log.name'' = ''log.name''"
    "normalizeNameFunc fs ''log.disable-stacktrace'' = ''log.disable-stacktrace''"
    "normalizeNameFunc fs ''log.max-size-mb'' = ''log.max-size-mb''"
    "normalizeNameFunc fs ''log.max-age-days'' = ''log.max-age-days''"
    using norm by (simp_all add: flagNames_def flag_names)
  have f: "''log.level'' \<notin> FlagName ` set (orderedFormal fs)"
    "''log.format'' \<notin> FlagName ` set (orderedFormal fs)"
    "''log.enable-color'' \<notin> FlagName ` set (orderedFormal fs)"
    "''log.enable-caller'' \<notin> FlagName ` set (orderedFormal fs)"
    "''log.output-paths'' \<notin> FlagName ` set (orderedFormal fs)"
    "''log.error-output-paths'' \<notin> FlagName ` set (orderedFormal fs)"
    "''log.development'' \<notin> FlagName ` set (orderedFormal fs)"
    "''log.name'' \<notin> FlagName ` set (orderedFormal fs)"
    "''log.disable-stacktrace'' \<notin> FlagName ` set (orderedFormal fs)"
    "''log.max-size-mb'' \<notin> FlagName ` set (orderedFormal fs)"
    "''log.max-age-days'' \<notin> FlagName ` set (orderedFormal fs)"
    using fresh by (simp_all add: flagNames_def flag_names)
  let ?new = "[\<lparr>FlagName = ''log.level'', Usage = ''Minimum log output `LEVEL`.'',
          FlagValue = stringValue ptr_Level, DefValue = stringDef (Level opts)\<rparr>,
       \<lparr>FlagName = ''log.format'', Usage = ''Log output `FORMAT`, support plain or json format.'',
          FlagValue = stringValue ptr_Format, DefValue = stringDef (Format opts)\<rparr>,
       \<lparr>FlagName = ''log.enable-color'', Usage = ''Enable output ansi colors in plain format logs.'',
          FlagValue = boolValue ptr_EnableColor, DefValue = boolDef (EnableColor opts)\<rparr>,
       \<lparr>FlagName = ''log.enable-caller'', Usage = ''Enable output of caller information in the log.'',
          FlagValue = boolValue ptr_EnableCaller, DefValue = boolDef (EnableCaller opts)\<rparr>,
       \<lparr>FlagName = ''log.output-paths'', Usage = ''Output paths of log.'',
          FlagValue = stringSliceValue ptr_OutputPaths, DefValue = stringSliceDef (OutputPaths opts)\<rparr>,
       \<lparr>FlagName = ''log.error-output-paths'', Usage = ''Error output paths of log.'',
          FlagValue = stringSliceValue ptr_ErrorOutputPaths,
          DefValue = stringSliceDef (ErrorOutputPaths opts)\<rparr>,
       \<lparr>FlagName = ''log.development'',
          Usage = ''Development puts the logger in development mode, which changes '' @
            ''the behavior of DPanicLevel and takes stacktraces more liberally.'',
          FlagValue = boolValue ptr_Development, DefValue = boolDef (Development opts)\<rparr>,
       \<lparr>FlagName = ''log.name'', Usage = ''The name of the logger.'',
          FlagValue = stringValue ptr_Name, DefValue = stringDef (Name opts)\<rparr>,
       \<lparr>FlagName = ''log.disable-stacktrace'',
          Usage = ''Disable the log to record a stack trace for all messages at or above panic level.'',
          FlagValue = boolValue ptr_DisableStacktrace, DefValue = boolDef (DisableStacktrace opts)\<rparr>,
       \<lparr>FlagName = ''log.max-size-mb'', Usage = ''The max size in MB.'',
          FlagValue = intValue ptr_MaxSizeInMB, DefValue = intDef (MaxSizeInMB opts)\<rparr>,
       \<lparr>FlagName = ''log.max-age-days'', Usage = ''The max age in Days.'',
          FlagValue = intValue ptr_MaxAgeInDays, DefValue = intDef (MaxAgeInDays opts)\<rparr>]"
  have r: "AddFlags opts fs = Inr (fs\<lparr>orderedFormal := orderedFormal fs @ ?new\<rparr>, opts)"
    unfolding AddFlags_def StringVar_def BoolVar_def StringSliceVar_def IntVar_def flag_names
    by (simp add: VarP_ok andThen_def n f)
  show ?thesis
    by (rule exI [of _ ?new]) (simp add: r)
qed

text \<open>The theorem at the defaults and an empty flag set.\<close>

theorem AddFlags_binds_witness:
  "list_all (\<lambda>n. normalizeNameFunc emptyFlagSet n = n) flagNames \<and>
   list_all (\<lambda>n. n \<notin> set (map FlagName (orderedFormal emptyFlagSet))) flagNames \<and>
   snd (projr (AddFlags NewOptions emptyFlagSet)) = NewOptions \<and>
   map (\<lambda>f. (FlagName f, DefValue f))
       (orderedFormal (fst (projr (AddFlags NewOptions emptyFlagSet)))) =
     [(''log.level'', stringDef ''info''),
      (''log.format'', stringDef ''console''),
      (''log.enable-color'', boolDef False),
      (''log.enable-caller'', boolDef False),
      (''log.output-paths'', stringSliceDef (Some [''stdout''])),
      (''log.error-output-paths'', stringSliceDef (Some [''stderr''])),
      (''log.development'', boolDef False),
      (''log.name'', stringDef []),
      (''log.disable-stacktrace'', boolDef False),
      (''log.max-size-mb'', intDef 0),
      (''log.max-age-days'', intDef 0)]"
proof -
  have a: "\<forall>n \<in> set flagNames. normalizeNameFunc emptyFlagSet n = n"
    by (simp add: emptyFlagSet_def)
  have b: "\<forall>n \<in> set flagNames. n \<notin> set (map FlagName (orderedFormal emptyFlagSet))"
    by (simp add: emptyFlagSet_def)
  obtain new where
    r: "AddFlags NewOptions emptyFlagSet =
          Inr (emptyFlagSet\<lparr>orderedFormal := orderedFormal emptyFlagSet @ new\<rparr>, NewOptions)"
    and m: "map (\<lambda>f. (FlagName f, FlagValue f, DefValue f)) new =
       [(''log.level'', stringValue ptr_Level, stringDef (Level NewOptions)),
        (''log.format'', stringValue ptr_Format, stringDef (Format NewOptions)),
        (''log.enable-color'', boolValue ptr_EnableColor, boolDef (EnableColor NewOptions)),
        (''log.enable-caller'', boolValue ptr_EnableCaller, boolDef (EnableCaller NewOptions)),
        (''log.output-paths'', stringSliceValue ptr_OutputPaths,
           stringSliceDef (OutputPaths NewOptions)),
        (''log.error-output-paths'', stringSliceValue ptr_ErrorOutputPaths,
           stringSliceDef (ErrorOutputPaths NewOptions)),
        (''log.development'', boolValue ptr_Development, boolDef (Development NewOptions)),
        (''log.name'', stringValue ptr_Name, stringDef (Name NewOptions)),
        (''log.disable-stacktrace'', boolValue ptr_DisableStacktrace,
           boolDef (DisableStacktrace NewOptions)),
        (''log.max-size-mb'', intValue ptr_MaxSizeInMB, intDef (MaxSizeInMB NewOptions)),
        (''log.max-age-days'', intValue ptr_MaxAgeInDays, intDef (MaxAgeInDays NewOptions))]"
    using AddFlags_binds [OF a b, where opts = NewOptions] by auto
  have m': "map (\<lambda>f. (FlagName f, DefValue f)) new =
      map (\<lambda>t. (fst t, snd (snd t))) (map (\<lambda>f. (FlagName f, FlagValue f, DefValue f)) new)"
    by simp
  have s1: "snd (projr (AddFlags NewOptions emptyFlagSet)) = NewOptions"
    by (simp add: r)
  have e: "orderedFormal emptyFlagSet = []"
    by (simp add: emptyFlagSet_def)
  have s2: "orderedFormal (fst (projr (AddFlags NewOptions emptyFlagSet))) = new"
    by (simp add: r e)
  have s3: "map (\<lambda>f. (FlagName f, DefValue f)) new =
     [(''log.level'', stringDef ''info''),
      (''log.format'', stringDef ''console''),
      (''log.enable-color'', boolDef False),
      (''log.enable-caller'', boolDef False),
      (''log.output-paths'', stringSliceDef (Some [''stdout''])),
      (''log.error-output-paths'', stringSliceDef (Some [''stderr''])),
      (''log.development'', boolDef False),
      (''log.name'', stringDef []),
      (''log.disable-stacktrace'', boolDef False),
      (''log.max-size-mb'', intDef 0),
      (''log.max-age-days'', intDef 0)]"
    unfolding m' m by (simp add: NewOptions_def zeroOptions_def consoleFormat_def)
  show ?thesis
    using a b by (simp add: s1 s2 s3 list_all_iff)
qed

section \<open>The text of a record\<close>




end
